theory Spec2Isabelle
  imports Main "HOL-Library.Sublist" "HOL-Library.Multiset" "HOL-Library.Char_ord"
    "HOL-Library.List_Lexorder" "HOL-Library.Product_Lexorder"
begin

section \<open>The objects of \<^verbatim>\<open>studip/database.py\<close>\<close>

text \<open>
  \<^verbatim>\<open>SyncMode = IntEnum("SyncMode", "NoSync Metadata Full")\<close>: the functional API of
  \<^verbatim>\<open>IntEnum\<close> numbers the members from 1, and \<^verbatim>\<open>int(enum)\<close> reads the number.
\<close>

datatype SyncMode = NoSync | Metadata | Full


text \<open>
  Modelled from the spec: \<^verbatim>\<open>EscapeMode\<close> and \<^verbatim>\<open>Charset\<close> are declared in
  \<^verbatim>\<open>studip/util.py\<close>, which is not among the sources. The spec names three escaping
  policies (reject, transliterate to a similar safe character, pass through) and two
  character-set policies (plain ASCII, full Unicode); the code names the members
  \<^verbatim>\<open>EscapeMode.Similar\<close> and \<^verbatim>\<open>Charset.Unicode\<close>.
\<close>

datatype EscapeMode = Reject | Similar | PassThrough

datatype Charset = Ascii | Unicode

text \<open>
  The classes \<^verbatim>\<open>Course\<close>, \<^verbatim>\<open>File\<close> and \<^verbatim>\<open>View\<close>. The records are complete:
  the attributes that \<^verbatim>\<open>Course.complete\<close> and \<^verbatim>\<open>File.complete\<close> require are
  populated. The other attributes of a file (extension, author, description, its URL,
  the local date) and the abbreviation overrides may be \<^verbatim>\<open>None\<close> and are
  \<open>option\<close>s; \<^verbatim>\<open>_abbrev\<close> is written \<open>u_abbrev\<close>. Identifiers of courses, files and
  semesters are strings, those of folders and views integers; time stamps are integers.
\<close>

record Course =
  Course_id :: string
  Course_semester :: string
  Course_number :: string
  Course_name :: string
  Course_type :: string
  Course_sync :: SyncMode
  Course_u_abbrev :: "string option"
  Course_u_type_abbrev :: "string option"

record File =
  File_id :: string
  File_course :: string
  File_course_semester :: string
  File_course_name :: string
  File_u_course_abbrev :: "string option"
  File_course_type :: string
  File_u_course_type_abbrev :: "string option"
  File_path :: "string list"
  File_name :: string
  File_extension :: "string option"
  File_author :: "string option"
  File_description :: "string option"
  File_description_url :: "string option"
  File_remote_date :: int
  File_copyrighted :: bool
  File_local_date :: "int option"
  File_version :: int

record View =
  View_id :: int
  View_name :: string
  View_format :: string
  View_base :: "string option"
  View_escape :: EscapeMode
  View_charset :: Charset

text \<open>
  Python's truth value of an optional string: \<^verbatim>\<open>None\<close> and the empty string are
  false.
\<close>

fun truthy :: "string option \<Rightarrow> bool" where
  "truthy None = False"
| "truthy (Some a) = (a \<noteq> [])"

text \<open>
  The properties \<^verbatim>\<open>Course.abbrev\<close>, \<^verbatim>\<open>Course.type_abbrev\<close>,
  \<^verbatim>\<open>File.course_abbrev\<close> and \<^verbatim>\<open>File.course_type_abbrev\<close>. The abbreviation
  functions \<^verbatim>\<open>abbreviate_course_name\<close> and \<^verbatim>\<open>abbreviate_course_type\<close> come from
  \<^verbatim>\<open>studip/util.py\<close>, which is not among the sources: they are parameters.
\<close>

definition Course_abbrev :: "(string \<Rightarrow> string) \<Rightarrow> Course \<Rightarrow> string" where
  "Course_abbrev abbreviate_course_name self =
     (if truthy (Course_u_abbrev self) then the (Course_u_abbrev self)
      else abbreviate_course_name (Course_name self))"

definition Course_type_abbrev :: "(string \<Rightarrow> string) \<Rightarrow> Course \<Rightarrow> string" where
  "Course_type_abbrev abbreviate_course_type self =
     (if truthy (Course_u_type_abbrev self) then the (Course_u_type_abbrev self)
      else abbreviate_course_type (Course_type self))"

definition File_course_abbrev :: "(string \<Rightarrow> string) \<Rightarrow> File \<Rightarrow> string" where
  "File_course_abbrev abbreviate_course_name self =
     (if truthy (File_u_course_abbrev self) then the (File_u_course_abbrev self)
      else abbreviate_course_name (File_name self))"

definition File_course_type_abbrev :: "(string \<Rightarrow> string) \<Rightarrow> File \<Rightarrow> string" where
  "File_course_type_abbrev abbreviate_course_type self =
     (if truthy (File_u_course_type_abbrev self) then the (File_u_course_type_abbrev self)
      else abbreviate_course_type (File_course_type self))"

section \<open>The store\<close>

text \<open>
  The tables the SQL statements of \<^verbatim>\<open>database.py\<close> name, with the columns they name.
  A table is the list of its rows in insertion order; \<open>tables\<close> lists the tables that
  exist, \<open>user_version\<close> is SQLite's \<^verbatim>\<open>PRAGMA user_version\<close>. A nullable column is
  an \<open>option\<close>.
\<close>

record semester_row =
  sem_id :: string
  sem_name :: string
  sem_ord :: int

record course_row =
  c_id :: string
  c_semester :: string
  c_number :: string
  c_name :: string
  c_abbrev :: "string option"
  c_type :: string
  c_type_abbrev :: "string option"
  c_sync :: SyncMode
  c_root :: "int option"

record folder_row =
  fo_id :: int
  fo_name :: string
  fo_parent :: "int option"

record file_row =
  f_id :: string
  f_folder :: int
  f_name :: string
  f_extension :: string
  f_author :: string
  f_description :: string
  f_remote_date :: int
  f_copyrighted :: bool
  f_local_date :: "int option"
  f_version :: int

record view_row =
  v_id :: int
  v_name :: string
  v_format :: string
  v_base :: "string option"
  v_esc_mode :: EscapeMode
  v_charset :: Charset

record checkout_row =
  co_view :: int
  co_file :: string

record store =
  user_version :: int
  tables :: "string list"
  semesters :: "semester_row list"
  courses :: "course_row list"
  folders :: "folder_row list"
  files :: "file_row list"
  views :: "view_row list"
  checkouts :: "checkout_row list"

text \<open>
  The exceptions the code raises or lets through: \<^verbatim>\<open>sqlite3.IntegrityError\<close>,
  \<^verbatim>\<open>sqlite3.OperationalError\<close> (a statement names a table that does not exist, a
  script fails), \<^verbatim>\<open>QueryError\<close>, \<^verbatim>\<open>DatabaseVersionError\<close>, and Python's
  \<^verbatim>\<open>ValueError\<close>, \<^verbatim>\<open>IndexError\<close>, \<^verbatim>\<open>TypeError\<close> and \<^verbatim>\<open>FileNotFoundError\<close>.
\<close>

datatype error =
  IntegrityError | OperationalError | QueryError | DatabaseVersionError
  | ValueError | IndexError | TypeError | FileNotFoundError

section \<open>SQL statements\<close>

text \<open>
  A statement runs on a store: it raises, or yields the rows of its result set and the
  store it leaves. \<open>sql_select\<close>, \<open>sql_insert\<close>, \<open>sql_update\<close> and \<open>sql_delete\<close>
  are the four statement forms the code uses: \<open>get\<close> reads the table (for a
  \<^verbatim>\<open>SELECT\<close>, the rows of its \<^verbatim>\<open>FROM\<close> clause), \<open>put\<close> replaces it, and
  \<open>order_by\<close> is the \<^verbatim>\<open>ORDER BY\<close> clause (the identity without one: the rows come
  in table order). A statement on a table that does not exist raises
  \<^verbatim>\<open>OperationalError\<close>; an insert that violates a constraint of the table raises
  \<^verbatim>\<open>IntegrityError\<close> and changes nothing. The updates of the code assign no key
  column and its deletes remove rows that no enforced constraint refers to, so
  \<open>sql_update\<close> and \<open>sql_delete\<close> check no key; the statements of \<^verbatim>\<open>add_course\<close>,
  \<^verbatim>\<open>add_file\<close> and \<^verbatim>\<open>update_file\<close>, which can bind \<^verbatim>\<open>NULL\<close> to a column that
  does not take it, check that themselves.
\<close>

type_synonym 'r stmt = "store \<Rightarrow> error + ('r list \<times> store)"

definition sql_select ::
  "string list \<Rightarrow> (store \<Rightarrow> 'r list) \<Rightarrow> ('r \<Rightarrow> bool) \<Rightarrow> ('r list \<Rightarrow> 'r list) \<Rightarrow>
     ('r \<Rightarrow> 'a) \<Rightarrow> 'a stmt" where
  "sql_select ts get cond order_by col s =
     (if set ts \<subseteq> set (tables s) then Inr (map col (order_by (filter cond (get s))), s)
      else Inl OperationalError)"

definition sql_insert ::
  "string \<Rightarrow> (store \<Rightarrow> 'r list) \<Rightarrow> ('r list \<Rightarrow> store \<Rightarrow> store) \<Rightarrow>
     ('r list \<Rightarrow> 'r \<Rightarrow> bool) \<Rightarrow> 'r \<Rightarrow> unit stmt" where
  "sql_insert t get put conflict new s =
     (if t \<notin> set (tables s) then Inl OperationalError
      else if conflict (get s) new then Inl IntegrityError
      else Inr ([], put (get s @ [new]) s))"

definition sql_update ::
  "string \<Rightarrow> (store \<Rightarrow> 'r list) \<Rightarrow> ('r list \<Rightarrow> store \<Rightarrow> store) \<Rightarrow>
     ('r \<Rightarrow> bool) \<Rightarrow> ('r \<Rightarrow> 'r) \<Rightarrow> unit stmt" where
  "sql_update t get put cond assign s =
     (if t \<in> set (tables s)
      then Inr ([], put (map (\<lambda>r. if cond r then assign r else r) (get s)) s)
      else Inl OperationalError)"

definition sql_delete ::
  "string \<Rightarrow> (store \<Rightarrow> 'r list) \<Rightarrow> ('r list \<Rightarrow> store \<Rightarrow> store) \<Rightarrow>
     ('r \<Rightarrow> bool) \<Rightarrow> unit stmt" where
  "sql_delete t get put cond s =
     (if t \<in> set (tables s) then Inr ([], put (filter (\<lambda>r. \<not> cond r) (get s)) s)
      else Inl OperationalError)"

text \<open>
  Modelled from the spec: the tables are declared in \<^verbatim>\<open>sql/setup.sql\<close>, which is not
  among the sources. The persisted store layout of the spec gives every table its \<open>id\<close>
  as key, \<open>views\<close> a unique \<open>name\<close>, \<open>checkouts\<close> the composite key \<open>(view, file)\<close>,
  and \<open>folders\<close> a uniqueness constraint on \<open>(parent, name)\<close> (SQL compares no
  \<^verbatim>\<open>NULL\<close> parent equal to another). Each predicate says when a new row conflicts
  with the rows of its table. SQLite does not enforce foreign keys unless
  \<^verbatim>\<open>PRAGMA foreign_keys\<close> is switched on, which the code never does.
\<close>

definition courses_conflict :: "course_row list \<Rightarrow> course_row \<Rightarrow> bool" where
  "courses_conflict rows new = (c_id new \<in> set (map c_id rows))"

definition files_conflict :: "file_row list \<Rightarrow> file_row \<Rightarrow> bool" where
  "files_conflict rows new = (f_id new \<in> set (map f_id rows))"

definition views_conflict :: "view_row list \<Rightarrow> view_row \<Rightarrow> bool" where
  "views_conflict rows new =
     (v_id new \<in> set (map v_id rows) \<or> v_name new \<in> set (map v_name rows))"

definition checkouts_conflict :: "checkout_row list \<Rightarrow> checkout_row \<Rightarrow> bool" where
  "checkouts_conflict rows new = (new \<in> set rows)"

definition folders_conflict :: "folder_row list \<Rightarrow> folder_row \<Rightarrow> bool" where
  "folders_conflict rows new =
     (fo_id new \<in> set (map fo_id rows) \<or>
      (fo_parent new \<noteq> None \<and>
       (fo_parent new, fo_name new) \<in> set (map (\<lambda>r. (fo_parent r, fo_name r)) rows)))"

text \<open>
  The id SQLite gives a row inserted without one into a table whose key is an integer:
  one more than the largest id of the table, 1 in an empty table.
\<close>

definition next_rowid :: "int list \<Rightarrow> int" where
  "next_rowid ids = (if ids = [] then 1 else Max (set ids) + 1)"

section \<open>\<^verbatim>\<open>Database.query\<close>\<close>

text \<open>
  How a call passes the statement's parameters: none, \<^verbatim>\<open>*args\<close>, \<^verbatim>\<open>**kwargs\<close>, or
  both. \<^verbatim>\<open>cursor.fetchmany(n)\<close> returns at most \<open>n\<close> rows, and every row when \<open>n\<close>
  is negative (the default \<^verbatim>\<open>expected_rows=-1\<close>). With \<^verbatim>\<open>expected_rows=0\<close> the method
  returns \<^verbatim>\<open>None\<close>.
\<close>

datatype params = NoParams | Positional | Keyword | PositionalAndKeyword

definition fetchmany :: "int \<Rightarrow> 'r list \<Rightarrow> 'r list" where
  "fetchmany n rows = (if n < 0 then rows else take (nat n) rows)"

definition execute :: "params \<Rightarrow> 'r stmt \<Rightarrow> 'r stmt" where
  "execute ps sql s =
     (case ps of
        PositionalAndKeyword \<Rightarrow> Inl ValueError
      | Positional \<Rightarrow> sql s
      | Keyword \<Rightarrow>
          (case sql s of
             Inl e \<Rightarrow> if e = IntegrityError then Inr ([], s) else Inl e
           | Inr r \<Rightarrow> Inr r)
      | NoParams \<Rightarrow> sql s)"

definition query ::
  "store \<Rightarrow> 'r stmt \<Rightarrow> int \<Rightarrow> params \<Rightarrow> error + ('r list option \<times> store)" where
  "query self sql expected_rows ps =
     (case execute ps sql self of
        Inl e \<Rightarrow> Inl e
      | Inr (result, s) \<Rightarrow>
          if expected_rows \<noteq> 0 then
            (let rows = fetchmany expected_rows result in
             if int (length rows) < expected_rows then Inl QueryError
             else Inr (Some rows, s))
          else Inr (None, s))"

text \<open>A call that ignores what \<open>query\<close> returns keeps the store only.\<close>

definition run :: "error + ('a \<times> store) \<Rightarrow> error + store" where
  "run r = (case r of Inl e \<Rightarrow> Inl e | Inr (_, s) \<Rightarrow> Inr s)"

text \<open>
  \<^verbatim>\<open>rows[0]\<close> on what \<open>query\<close> returned, and the truth value \<^verbatim>\<open>not rows\<close> tests.
\<close>

fun first_row :: "'r list option \<Rightarrow> error + 'r" where
  "first_row None = Inl TypeError"
| "first_row (Some []) = Inl IndexError"
| "first_row (Some (r # _)) = Inr r"

fun no_rows :: "'r list option \<Rightarrow> bool" where
  "no_rows None = True"
| "no_rows (Some rows) = (rows = [])"

section \<open>Courses\<close>






text \<open>
  \<^verbatim>\<open>add_course\<close>: the semester of the new row is the id of the first semester with
  the course's semester name, \<^verbatim>\<open>NULL\<close> without one. Modelled from the spec: the
  store layout marks the nullable columns and \<open>semester\<close> is not among them, so a
  \<^verbatim>\<open>NULL\<close> semester is an integrity violation. \<open>root\<close> is not among the inserted
  columns: the row gets \<^verbatim>\<open>NULL\<close>, and what \<^verbatim>\<open>setup.sql\<close> may do after an insert
  to give the course a root folder is not among the sources.
\<close>

definition add_course_sql :: "Course \<Rightarrow> unit stmt" where
  "add_course_sql course s =
     (if \<not> set [''courses'', ''semesters''] \<subseteq> set (tables s) then Inl OperationalError
      else case filter (\<lambda>sm. sem_name sm = Course_semester course) (semesters s) of
        [] \<Rightarrow> Inl IntegrityError
      | sm # _ \<Rightarrow>
          sql_insert ''courses'' courses (\<lambda>rows. courses_update (\<lambda>_. rows)) courses_conflict
            \<lparr>c_id = Course_id course, c_semester = sem_id sm,
             c_number = Course_number course, c_name = Course_name course,
             c_abbrev = Course_u_abbrev course, c_type = Course_type course,
             c_type_abbrev = Course_u_type_abbrev course, c_sync = Course_sync course,
             c_root = None\<rparr> s)"

definition add_course :: "store \<Rightarrow> Course \<Rightarrow> error + store" where
  "add_course self course = run (query self (add_course_sql course) 0 Keyword)"

text \<open>
  \<^verbatim>\<open>update_course\<close> writes the properties \<^verbatim>\<open>course.abbrev\<close> and
  \<^verbatim>\<open>course.type_abbrev\<close>, not the overrides. It leaves the key of the row alone, so
  it violates no constraint.
\<close>

definition update_course ::
  "(string \<Rightarrow> string) \<Rightarrow> (string \<Rightarrow> string) \<Rightarrow> store \<Rightarrow> Course \<Rightarrow> error + store" where
  "update_course abbreviate_course_name abbreviate_course_type self course =
     run (query self
       (sql_update ''courses'' courses (\<lambda>rows. courses_update (\<lambda>_. rows))
          (\<lambda>r. c_id r = Course_id course)
          (\<lambda>r. r\<lparr>c_number := Course_number course, c_name := Course_name course,
                 c_abbrev := Some (Course_abbrev abbreviate_course_name course),
                 c_type := Course_type course,
                 c_type_abbrev := Some (Course_type_abbrev abbreviate_course_type course),
                 c_sync := Course_sync course\<rparr>))
       0 Keyword)"

definition delete_course :: "store \<Rightarrow> Course \<Rightarrow> error + store" where
  "delete_course self course =
     run (query self
       (sql_delete ''courses'' courses (\<lambda>rows. courses_update (\<lambda>_. rows))
          (\<lambda>r. c_id r = Course_id course))
       0 Keyword)"

section \<open>Folders and files\<close>

text \<open>
  \<^verbatim>\<open>query_subdirectory\<close>, the local function of \<^verbatim>\<open>create_parent_for_file\<close>:
  \<^verbatim>\<open>parent = :par\<close> holds for no row when the parameter is \<^verbatim>\<open>NULL\<close>.
\<close>

definition in_folder :: "int option \<Rightarrow> string \<Rightarrow> folder_row \<Rightarrow> bool" where
  "in_folder par name r = (par \<noteq> None \<and> fo_parent r = par \<and> fo_name r = name)"

definition query_subdirectory ::
  "store \<Rightarrow> int option \<Rightarrow> string \<Rightarrow> error + (int list option \<times> store)" where
  "query_subdirectory self parent folder =
     query self (sql_select [''folders''] folders (in_folder parent folder) id fo_id)
       (-1) Keyword"

text \<open>
  \<^verbatim>\<open>INSERT INTO folders (name, parent)\<close>: the new row gets the next id of the table.
\<close>

definition new_folder :: "store \<Rightarrow> string \<Rightarrow> int option \<Rightarrow> folder_row" where
  "new_folder s name par =
     \<lparr>fo_id = next_rowid (map fo_id (folders s)), fo_name = name, fo_parent = par\<rparr>"

definition insert_folder_sql :: "string \<Rightarrow> int option \<Rightarrow> unit stmt" where
  "insert_folder_sql name par s =
     sql_insert ''folders'' folders (\<lambda>rows. folders_update (\<lambda>_. rows)) folders_conflict
       (new_folder s name par) s"

text \<open>The loop of \<^verbatim>\<open>create_parent_for_file\<close> over \<^verbatim>\<open>file.path\<close>.\<close>

fun walk_path :: "store \<Rightarrow> int option \<Rightarrow> string list \<Rightarrow> error + (int option \<times> store)" where
  "walk_path self parent [] = Inr (parent, self)"
| "walk_path self parent (folder # path) =
     (case query_subdirectory self parent folder of
        Inl e \<Rightarrow> Inl e
      | Inr (rows, s1) \<Rightarrow>
          (case (if no_rows rows then
                   (case query s1 (insert_folder_sql folder parent) 0 Keyword of
                      Inl e \<Rightarrow> Inl e
                    | Inr (_, s2) \<Rightarrow> query_subdirectory s2 parent folder)
                 else Inr (rows, s1)) of
             Inl e \<Rightarrow> Inl e
           | Inr (rows', s3) \<Rightarrow>
               (case first_row rows' of
                  Inl e \<Rightarrow> Inl e
                | Inr r \<Rightarrow> walk_path s3 (Some r) path)))"

definition create_parent_for_file :: "store \<Rightarrow> File \<Rightarrow> error + (int option \<times> store)" where
  "create_parent_for_file self file =
     (case query self
             (sql_select [''courses''] courses (\<lambda>c. c_id c = File_course file) id c_root)
             (-1) Keyword of
        Inl e \<Rightarrow> Inl e
      | Inr (rows, s1) \<Rightarrow>
          (case first_row rows of
             Inl e \<Rightarrow> Inl e
           | Inr parent \<Rightarrow> walk_path s1 parent (File_path file)))"

text \<open>
  Modelled from the spec: the \<open>files\<close> table is declared in \<^verbatim>\<open>sql/setup.sql\<close>,
  which is not among the sources. The store layout of the spec marks \<open>local_date\<close> as
  the only nullable column of \<open>files\<close>, so a \<^verbatim>\<open>NULL\<close> folder, extension, author or
  description is an integrity violation: of an insert always, of an update when it has
  a row to update. \<open>file_columns\<close> gives the values of these columns when none of them
  is \<^verbatim>\<open>NULL\<close>.
\<close>

definition file_columns :: "File \<Rightarrow> int option \<Rightarrow> (int \<times> string \<times> string \<times> string) option" where
  "file_columns file par =
     (case (par, File_extension file, File_author file, File_description file) of
        (Some folder, Some ext, Some auth, Some descr) \<Rightarrow> Some (folder, ext, auth, descr)
      | _ \<Rightarrow> None)"

definition insert_file_sql :: "File \<Rightarrow> int option \<Rightarrow> unit stmt" where
  "insert_file_sql file par s =
     (case file_columns file par of
        None \<Rightarrow>
          if ''files'' \<in> set (tables s) then Inl IntegrityError else Inl OperationalError
      | Some (folder, ext, auth, descr) \<Rightarrow>
          sql_insert ''files'' files (\<lambda>rows. files_update (\<lambda>_. rows)) files_conflict
            \<lparr>f_id = File_id file, f_folder = folder, f_name = File_name file,
             f_extension = ext, f_author = auth, f_description = descr,
             f_remote_date = File_remote_date file,
             f_copyrighted = File_copyrighted file,
             f_local_date = File_local_date file, f_version = 0\<rparr> s)"

text \<open>The \<^verbatim>\<open>SET\<close> clause of \<^verbatim>\<open>update_file\<close>.\<close>

definition set_file_columns ::
  "File \<Rightarrow> int \<times> string \<times> string \<times> string \<Rightarrow> file_row \<Rightarrow> file_row" where
  "set_file_columns file cols r =
     (case cols of (folder, ext, auth, descr) \<Rightarrow>
        r\<lparr>f_folder := folder, f_name := File_name file,
          f_extension := ext, f_author := auth, f_description := descr,
          f_remote_date := File_remote_date file,
          f_copyrighted := File_copyrighted file,
          f_local_date := File_local_date file,
          f_version := f_version r + 1\<rparr>)"

definition update_file_sql :: "File \<Rightarrow> int option \<Rightarrow> unit stmt" where
  "update_file_sql file par s =
     (case file_columns file par of
        None \<Rightarrow>
          if ''files'' \<notin> set (tables s) then Inl OperationalError
          else if filter (\<lambda>r. f_id r = File_id file) (files s) = [] then Inr ([], s)
          else Inl IntegrityError
      | Some cols \<Rightarrow>
          sql_update ''files'' files (\<lambda>rows. files_update (\<lambda>_. rows))
            (\<lambda>r. f_id r = File_id file) (set_file_columns file cols) s)"

definition add_file :: "store \<Rightarrow> File \<Rightarrow> error + store" where
  "add_file self file =
     (case create_parent_for_file self file of
        Inl e \<Rightarrow> Inl e
      | Inr (parent, s1) \<Rightarrow> run (query s1 (insert_file_sql file parent) 0 Keyword))"

text \<open>
  \<^verbatim>\<open>update_file\<close>: both statements run on the keyword path of \<open>query\<close>, so an
  \<^verbatim>\<open>IntegrityError\<close> of the \<^verbatim>\<open>UPDATE\<close> is swallowed and the \<^verbatim>\<open>DELETE\<close> runs all
  the same.
\<close>

definition update_file :: "store \<Rightarrow> File \<Rightarrow> error + store" where
  "update_file self file =
     (case create_parent_for_file self file of
        Inl e \<Rightarrow> Inl e
      | Inr (parent, s1) \<Rightarrow>
          (case query s1 (update_file_sql file parent) 0 Keyword of
             Inl e \<Rightarrow> Inl e
           | Inr (_, s2) \<Rightarrow>
               run (query s2
                 (sql_delete ''checkouts'' checkouts (\<lambda>rows. checkouts_update (\<lambda>_. rows))
                    (\<lambda>r. co_file r = File_id file))
                 0 Keyword)))"

definition update_file_local_date :: "store \<Rightarrow> File \<Rightarrow> error + store" where
  "update_file_local_date self file =
     run (query self
       (sql_update ''files'' files (\<lambda>rows. files_update (\<lambda>_. rows))
          (\<lambda>r. f_id r = File_id file)
          (\<lambda>r. r\<lparr>f_local_date := File_local_date file\<rparr>))
       0 Keyword)"

section \<open>Views and checkouts\<close>

text \<open>\<^verbatim>\<open>View.__init__\<close> with its defaults, as \<^verbatim>\<open>View(id, name)\<close> calls it.\<close>

definition View_init :: "int \<Rightarrow> string \<Rightarrow> View" where
  "View_init id' name =
     \<lparr>View_id = id', View_name = name,
      View_format = ''{course}/{type}/{short-path}/{name}{ext}'', View_base = None,
      View_escape = Similar, View_charset = Unicode\<rparr>"

definition add_view :: "store \<Rightarrow> View \<Rightarrow> error + store" where
  "add_view self view =
     run (query self
       (sql_insert ''views'' views (\<lambda>rows. views_update (\<lambda>_. rows)) views_conflict
          \<lparr>v_id = View_id view, v_name = View_name view, v_format = View_format view,
           v_base = View_base view, v_esc_mode = View_escape view,
           v_charset = View_charset view\<rparr>)
       0 Keyword)"

definition remove_view :: "store \<Rightarrow> int \<Rightarrow> error + store" where
  "remove_view self id' =
     run (query self
       (sql_delete ''views'' views (\<lambda>rows. views_update (\<lambda>_. rows)) (\<lambda>r. v_id r = id'))
       0 Keyword)"


definition add_checkout :: "store \<Rightarrow> int \<Rightarrow> string \<Rightarrow> error + store" where
  "add_checkout self view_id file_id =
     run (query self
       (sql_insert ''checkouts'' checkouts (\<lambda>rows. checkouts_update (\<lambda>_. rows))
          checkouts_conflict \<lparr>co_view = view_id, co_file = file_id\<rparr>)
       0 Keyword)"

definition reset_checkouts :: "store \<Rightarrow> int \<Rightarrow> error + store" where
  "reset_checkouts self view_id =
     run (query self
       (sql_delete ''checkouts'' checkouts (\<lambda>rows. checkouts_update (\<lambda>_. rows))
          (\<lambda>r. co_view r = view_id))
       0 Keyword)"

section \<open>\<^verbatim>\<open>Database.__init__\<close>\<close>

text \<open>
  The database files on disk: a file name has a database or there is no such file.
  \<^verbatim>\<open>sqlite3.connect\<close> opens the file, and a file that does not exist as the empty
  database: no table, \<^verbatim>\<open>user_version\<close> 0. A connection sees its own store, which
  differs from the file by the changes of its open transaction: \<^verbatim>\<open>sqlite3\<close> opens a
  transaction before an \<^verbatim>\<open>INSERT\<close>, \<^verbatim>\<open>UPDATE\<close> or \<^verbatim>\<open>DELETE\<close> and writes it to
  the file at \<^verbatim>\<open>commit\<close>. The methods above act on the store of the connection.
\<close>

type_synonym filesystem = "string \<Rightarrow> store option"

definition empty_db :: store where
  "empty_db =
     \<lparr>user_version = 0, tables = [], semesters = [], courses = [], folders = [],
      files = [], views = [], checkouts = []\<rparr>"

definition connect :: "filesystem \<Rightarrow> string \<Rightarrow> store" where
  "connect fs file_name = (case fs file_name of None \<Rightarrow> empty_db | Some s \<Rightarrow> s)"

definition schema_version :: int where
  "schema_version = 12"

definition pragma_user_version :: "int stmt" where
  "pragma_user_version s = Inr ([user_version s], s)"

definition pragma_set_user_version :: "int \<Rightarrow> unit stmt" where
  "pragma_set_user_version v s = Inr ([], s\<lparr>user_version := v\<rparr>)"

text \<open>
  \<^verbatim>\<open>str\<close> of an integer, as \<^verbatim>\<open>"{}".format\<close> writes \<^verbatim>\<open>db_version\<close>.
\<close>

function str_nat :: "nat \<Rightarrow> string" where
  "str_nat n =
     (if n < 10 then [''0123456789'' ! n]
      else str_nat (n div 10) @ [''0123456789'' ! (n mod 10)])"
  by pat_completeness auto
termination
  by (relation "measure (\<lambda>n. n)") auto

definition str_int :: "int \<Rightarrow> string" where
  "str_int i = (if i < 0 then CHR ''-'' # str_nat (nat (- i)) else str_nat (nat i))"

text \<open>
  \<^verbatim>\<open>os.path.splitext\<close> of \<^verbatim>\<open>posixpath\<close>: the extension starts at the last dot of
  the last path component, unless only dots stand before it in that component.
  \<open>rfind\<close> is \<^verbatim>\<open>str.rfind\<close> for one character: the last index, or -1.
\<close>

definition rfind :: "char \<Rightarrow> string \<Rightarrow> int" where
  "rfind c p =
     (if c \<in> set p then int (length p) - 1 - int (length (takeWhile (\<lambda>x. x \<noteq> c) (rev p)))
      else - 1)"

definition splitext :: "string \<Rightarrow> string \<times> string" where
  "splitext p =
     (let sepIndex = rfind CHR ''/'' p; dotIndex = rfind CHR ''.'' p in
      if dotIndex > sepIndex \<and>
         (\<exists>c \<in> set (take (nat (dotIndex - (sepIndex + 1))) (drop (nat (sepIndex + 1)) p)).
            c \<noteq> CHR ''.'')
      then (take (nat dotIndex) p, drop (nat dotIndex) p)
      else (p, []))"

text \<open>
  \<^verbatim>\<open>"{}.backup-schema{}{}".format(base_name, db_version, ext)\<close>.
\<close>

definition backup_file :: "string \<Rightarrow> int \<Rightarrow> string" where
  "backup_file file_name db_version =
     (case splitext file_name of
        (base_name, ext) \<Rightarrow> base_name @ ''.backup-schema'' @ str_int db_version @ ext)"

text \<open>
  The SQL scripts of the \<^verbatim>\<open>sql\<close> directory are not among the sources:
  \<open>query_script_file\<close> takes what each script does to the store as the parameter
  \<open>scripts\<close>, by file name.
\<close>

definition query_script_file ::
  "(string \<Rightarrow> store \<Rightarrow> error + store) \<Rightarrow> string \<Rightarrow> store \<Rightarrow> error + store" where
  "query_script_file scripts name self = scripts name self"

text \<open>
  Modelled from the spec: \<^verbatim>\<open>sql/setup.sql\<close> is not among the sources. The spec says
  that it initialises the full schema: tables for semesters, courses, folders, files,
  views and checkouts.
\<close>

definition schema_tables :: "string list" where
  "schema_tables =
     [''semesters'', ''courses'', ''folders'', ''files'', ''views'', ''checkouts'']"

definition setup_sql :: "store \<Rightarrow> error + store" where
  "setup_sql s = Inr (s\<lparr>tables := List.union (tables s) schema_tables\<rparr>)"

text \<open>
  The steps of \<^verbatim>\<open>__init__\<close> act on the file system and on the store of the
  connection \<^verbatim>\<open>self.conn\<close>; each ends normally or with an exception, and leaves what
  it has reached. \<open>autocommit\<close> runs a \<^verbatim>\<open>PRAGMA\<close> or a script: neither opens a
  transaction (\<^verbatim>\<open>executescript\<close> commits a pending one first), so the result is in the
  file at once. \<open>in_transaction\<close> runs a method whose statement inserts, updates or
  deletes: the result stays with the connection. \<open>reconnect\<close> is
  \<^verbatim>\<open>self.conn.close()\<close> followed by \<^verbatim>\<open>connect(self)\<close>, \<open>copyfile\<close> is
  \<^verbatim>\<open>shutil.copyfile\<close>, and \<open>seq\<close> runs two steps one after the other, the second
  only when the first ends normally. \<open>commit\<close> is \<^verbatim>\<open>Database.commit\<close>.
\<close>

type_synonym step = "filesystem \<times> store \<Rightarrow> error option \<times> filesystem \<times> store"

definition autocommit :: "string \<Rightarrow> (store \<Rightarrow> error + store) \<Rightarrow> step" where
  "autocommit file_name method w =
     (case w of (fs, conn) \<Rightarrow>
        (case method conn of
           Inl e \<Rightarrow> (Some e, fs, conn)
         | Inr s \<Rightarrow> (None, fs(file_name \<mapsto> s), s)))"

definition in_transaction :: "(store \<Rightarrow> error + store) \<Rightarrow> step" where
  "in_transaction method w =
     (case w of (fs, conn) \<Rightarrow>
        (case method conn of
           Inl e \<Rightarrow> (Some e, fs, conn)
         | Inr s \<Rightarrow> (None, fs, s)))"

definition reconnect :: "string \<Rightarrow> step" where
  "reconnect file_name w = (case w of (fs, conn) \<Rightarrow> (None, fs, connect fs file_name))"

definition copyfile :: "string \<Rightarrow> string \<Rightarrow> step" where
  "copyfile src dst w =
     (case w of (fs, conn) \<Rightarrow>
        (case fs src of
           None \<Rightarrow> (Some FileNotFoundError, fs, conn)
         | Some d \<Rightarrow> (None, fs(dst \<mapsto> d), conn)))"

definition raise :: "error \<Rightarrow> step" where
  "raise e w = (Some e, w)"

definition pass :: step where
  "pass w = (None, w)"

definition seq :: "step \<Rightarrow> step \<Rightarrow> step" where
  "seq a b w = (case a w of (Some e, w1) \<Rightarrow> (Some e, w1) | (None, w1) \<Rightarrow> b w1)"

definition commit :: "string \<Rightarrow> filesystem \<times> store \<Rightarrow> filesystem \<times> store" where
  "commit file_name w = (case w of (fs, conn) \<Rightarrow> (fs(file_name \<mapsto> conn), conn))"

text \<open>
  \<^verbatim>\<open>Database.__init__\<close> on the files \<open>fs\<close>: the exception it ends with, if any, the
  files it leaves, and the store of the connection of the new object.
\<close>

definition Database_init ::
  "(string \<Rightarrow> store \<Rightarrow> error + store) \<Rightarrow> string \<Rightarrow> filesystem \<Rightarrow>
     error option \<times> filesystem \<times> store" where
  "Database_init scripts file_name fs =
     (let conn = connect fs file_name in
      case query conn pragma_user_version 1 NoParams of
        Inl e \<Rightarrow> (Some e, fs, conn)
      | Inr (rows, _) \<Rightarrow>
          (case first_row rows of
             Inl e \<Rightarrow> (Some e, fs, conn)
           | Inr db_version \<Rightarrow>
               if db_version < schema_version then
                 seq (if db_version \<in> set [9, 11] then
                        seq (copyfile file_name (backup_file file_name db_version))
                         (seq (reconnect file_name)
                           (seq (if db_version < 11
                                 then autocommit file_name
                                        (query_script_file scripts ''migrate-9-11.sql'')
                                 else pass)
                                (if db_version < 12
                                 then autocommit file_name
                                        (query_script_file scripts ''migrate-11-12.sql'')
                                 else pass)))
                      else if db_version \<noteq> 0 then raise DatabaseVersionError
                      else pass)
                  (seq (autocommit file_name
                          (\<lambda>self. run (query self (pragma_set_user_version schema_version) 0 NoParams)))
                       (if db_version = 0 then
                          seq (autocommit file_name (query_script_file scripts ''setup.sql''))
                              (in_transaction (\<lambda>self. add_view self (View_init 0 ''default'')))
                        else pass))
                  (fs, conn)
               else if db_version > schema_version then raise DatabaseVersionError (fs, conn)
               else pass (fs, conn)))"

text \<open>
  The store of a database that \<^verbatim>\<open>__init__\<close> has just set up, with the given rows
  of \<open>views\<close>, and the row that \<^verbatim>\<open>add_view(View(0, "default"))\<close> inserts.
\<close>

definition new_store :: "view_row list \<Rightarrow> store" where
  "new_store vs =
     \<lparr>user_version = 12, tables = schema_tables, semesters = [], courses = [],
      folders = [], files = [], views = vs, checkouts = []\<rparr>"

definition default_view :: view_row where
  "default_view =
     \<lparr>v_id = 0, v_name = ''default'',
      v_format = ''{course}/{type}/{short-path}/{name}{ext}'', v_base = None,
      v_esc_mode = Similar, v_charset = Unicode\<rparr>"

section \<open>Example data\<close>

text \<open>
  Concrete inputs on which the theorems below are instantiated: a stand-in for the
  abbreviation functions of \<^verbatim>\<open>util.py\<close>, scripts whose migrations change nothing, a
  populated store at schema version 12, and a course, a file and a file system.
\<close>

definition example_abbreviate :: "string \<Rightarrow> string" where
  "example_abbreviate name = take 3 name"

definition example_scripts :: "string \<Rightarrow> store \<Rightarrow> error + store" where
  "example_scripts name s = (if name = ''setup.sql'' then setup_sql s else Inr s)"

definition example_store :: store where
  "example_store =
     \<lparr>user_version = 12, tables = schema_tables,
      semesters = [\<lparr>sem_id = ''s1'', sem_name = ''WS 15/16'', sem_ord = 1\<rparr>],
      courses =
        [\<lparr>c_id = ''c1'', c_semester = ''s1'', c_number = ''5201'', c_name = ''Analysis'',
          c_abbrev = None, c_type = ''Lecture'', c_type_abbrev = None, c_sync = Full,
          c_root = Some 1\<rparr>,
         \<lparr>c_id = ''c2'', c_semester = ''s1'', c_number = ''5202'', c_name = ''Algebra'',
          c_abbrev = None, c_type = ''Seminar'', c_type_abbrev = None, c_sync = NoSync,
          c_root = Some 2\<rparr>],
      folders =
        [\<lparr>fo_id = 1, fo_name = ''Analysis'', fo_parent = None\<rparr>,
         \<lparr>fo_id = 2, fo_name = ''Algebra'', fo_parent = None\<rparr>],
      files =
        [\<lparr>f_id = ''f1'', f_folder = 1, f_name = ''sheet01'', f_extension = ''pdf'',
          f_author = ''Noether'', f_description = ''first sheet'', f_remote_date = 100,
          f_copyrighted = False, f_local_date = None, f_version = 0\<rparr>],
      views =
        [\<lparr>v_id = 0, v_name = ''default'',
          v_format = ''{course}/{type}/{short-path}/{name}{ext}'', v_base = None,
          v_esc_mode = Similar, v_charset = Unicode\<rparr>],
      checkouts = [\<lparr>co_view = 0, co_file = ''f1''\<rparr>]\<rparr>"

definition example_course :: Course where
  "example_course =
     \<lparr>Course_id = ''c9'', Course_semester = ''WS 15/16'', Course_number = ''5209'',
      Course_name = ''Topology'', Course_type = ''Lecture'', Course_sync = Metadata,
      Course_u_abbrev = None, Course_u_type_abbrev = None\<rparr>"

definition example_file :: File where
  "example_file =
     \<lparr>File_id = ''f1'', File_course = ''c1'', File_course_semester = ''WS 15/16'',
      File_course_name = ''Analysis'', File_u_course_abbrev = None,
      File_course_type = ''Lecture'', File_u_course_type_abbrev = None,
      File_path = [''Sheets'', ''Week 1''], File_name = ''sheet01'',
      File_extension = Some ''pdf'', File_author = Some ''Noether'',
      File_description = Some ''first sheet, corrected'', File_description_url = None,
      File_remote_date = 200, File_copyrighted = False, File_local_date = Some 150,
      File_version = 0\<rparr>"

definition example_fs :: "int \<Rightarrow> filesystem" where
  "example_fs v = Map.empty(''cache.sqlite'' \<mapsto> example_store\<lparr>user_version := v\<rparr>)"

section \<open>How \<open>query\<close> runs a statement\<close>

lemma run_query_write:
  "run (query s sql 0 Keyword) =
     (case sql s of
        Inl e \<Rightarrow> if e = IntegrityError then Inr s else Inl e
      | Inr (rows, s') \<Rightarrow> Inr s')"
  by (simp add: run_def query_def execute_def split: sum.splits prod.splits)

lemma query_read:
  "query s sql (- 1) ps =
     (case execute ps sql s of Inl e \<Rightarrow> Inl e | Inr (rows, s') \<Rightarrow> Inr (Some rows, s'))"
  by (simp add: query_def fetchmany_def split: sum.splits prod.splits)

lemma query_user_version:
  "query s pragma_user_version 1 NoParams = Inr (Some [user_version s], s)"
  by (simp add: query_def execute_def pragma_user_version_def fetchmany_def)

lemma run_set_user_version:
  "run (query s (pragma_set_user_version v) 0 NoParams) = Inr (s\<lparr>user_version := v\<rparr>)"
  by (simp add: run_def query_def execute_def pragma_set_user_version_def)

lemma connect_upd: "connect (fs(file_name \<mapsto> s)) file_name = s"
  by (simp add: connect_def)

lemma example_tables:
  "tables example_store =
     [''semesters'', ''courses'', ''folders'', ''files'', ''views'', ''checkouts'']"
  by (simp add: example_store_def schema_tables_def)

section \<open>Opening a store\<close>

text \<open>
  C4. Opening a store whose \<open>user_version\<close> is greater than 12, or less than 12 and
  none of 0, 9 and 11, ends with \<^verbatim>\<open>DatabaseVersionError\<close> and leaves every file as it
  was.
\<close>

theorem Database_init_incompatible:
  assumes "user_version (connect fs file_name) = v"
    and "v > 12 \<or> (v < 12 \<and> v \<noteq> 0 \<and> v \<noteq> 9 \<and> v \<noteq> 11)"
  shows "Database_init scripts file_name fs =
           (Some DatabaseVersionError, fs, connect fs file_name)"
  using assms
  by (auto simp add: Database_init_def Let_def query_user_version schema_version_def seq_def
      raise_def)

theorem Database_init_incompatible_witness:
  "user_version (connect (example_fs 13) ''cache.sqlite'') = 13 \<and>
   Database_init example_scripts ''cache.sqlite'' (example_fs 13) =
     (Some DatabaseVersionError, example_fs 13, connect (example_fs 13) ''cache.sqlite'') \<and>
   user_version (connect (example_fs 10) ''cache.sqlite'') = 10 \<and>
   Database_init example_scripts ''cache.sqlite'' (example_fs 10) =
     (Some DatabaseVersionError, example_fs 10, connect (example_fs 10) ''cache.sqlite'')"
proof -
  have a: "user_version (connect (example_fs 13) ''cache.sqlite'') = 13"
    and b: "user_version (connect (example_fs 10) ''cache.sqlite'') = 10"
    by (simp_all add: example_fs_def connect_def)
  show ?thesis
    using a b
      Database_init_incompatible [OF a, of example_scripts]
      Database_init_incompatible [OF b, of example_scripts]
    by simp
qed

text \<open>
  The name of the backup file, and what a migration from version 9 comes to.
\<close>

lemma str_int_9: "str_int 9 = ''9''"
  by code_simp

lemma splitext_append: "fst (splitext p) @ snd (splitext p) = p"
  by (simp add: splitext_def Let_def)

lemma backup_file_9:
  "backup_file file_name 9 =
     fst (splitext file_name) @ ''.backup-schema9'' @ snd (splitext file_name)"
  by (simp add: backup_file_def str_int_9 split: prod.splits)

lemma backup_file_neq: "backup_file file_name v \<noteq> file_name"
proof
  assume eq: "backup_file file_name v = file_name"
  obtain b e where be: "splitext file_name = (b, e)"
    by (cases "splitext file_name")
  from splitext_append [of file_name] be have "b @ e = file_name"
    by simp
  moreover from eq be have "b @ ''.backup-schema'' @ str_int v @ e = file_name"
    by (simp add: backup_file_def)
  ultimately have "length (b @ ''.backup-schema'' @ str_int v @ e) = length (b @ e)"
    by simp
  then show False
    by simp
qed

lemma Database_init_9:
  assumes "fs file_name = Some s"
    and "user_version s = 9"
    and "scripts ''migrate-9-11.sql'' s = Inr s1"
    and "scripts ''migrate-11-12.sql'' s1 = Inr s2"
  shows "Database_init scripts file_name fs =
           (None, fs(backup_file file_name 9 \<mapsto> s, file_name \<mapsto> s2\<lparr>user_version := 12\<rparr>),
            s2\<lparr>user_version := 12\<rparr>)"
proof -
  have c: "connect fs file_name = s"
    using assms(1) by (simp add: connect_def)
  show ?thesis
    using assms backup_file_neq [of file_name 9]
    by (simp add: Database_init_def Let_def query_user_version c schema_version_def seq_def
        copyfile_def reconnect_def autocommit_def connect_def query_script_file_def
        run_set_user_version pass_def)
qed

text \<open>
  C5, as stated, fails on the name of the backup: for \<^verbatim>\<open>cache.sqlite\<close> at version 9
  the backup is \<^verbatim>\<open>cache.backup-schema9.sqlite\<close>, a name that neither ends with nor
  contains \<^verbatim>\<open>-backup-schema9\<close>.
\<close>

theorem backup_name_counterexample:
  "backup_file ''cache.sqlite'' 9 = ''cache.backup-schema9.sqlite'' \<and>
   \<not> suffix ''-backup-schema9'' (backup_file ''cache.sqlite'' 9) \<and>
   \<not> sublist ''-backup-schema9'' (backup_file ''cache.sqlite'' 9) \<and>
   fst (snd (Database_init example_scripts ''cache.sqlite'' (example_fs 9)))
     ''cache.backup-schema9.sqlite'' = Some (example_store\<lparr>user_version := 9\<rparr>)"
proof -
  have name: "backup_file ''cache.sqlite'' 9 = ''cache.backup-schema9.sqlite''"
    by code_simp
  have "\<not> suffix ''-backup-schema9'' ''cache.backup-schema9.sqlite''"
    and "\<not> sublist ''-backup-schema9'' ''cache.backup-schema9.sqlite''"
    by code_simp+
  moreover have "fst (snd (Database_init example_scripts ''cache.sqlite'' (example_fs 9)))
      ''cache.backup-schema9.sqlite'' = Some (example_store\<lparr>user_version := 9\<rparr>)"
    using Database_init_9 [of "example_fs 9" "''cache.sqlite''"
        "example_store\<lparr>user_version := 9\<rparr>" example_scripts
        "example_store\<lparr>user_version := 9\<rparr>" "example_store\<lparr>user_version := 9\<rparr>"]
    by (simp add: example_fs_def example_scripts_def name)
  ultimately show ?thesis
    by (simp add: name)
qed

text \<open>
  C5, amended. Opening a store at version 9 copies the database file, as it was, to
  the backup file named \<^verbatim>\<open>base_name + ".backup-schema9" + ext\<close>, where
  \<^verbatim>\<open>(base_name, ext)\<close> is \<^verbatim>\<open>os.path.splitext\<close> of the file name (a file other than
  the database file); it then runs \<^verbatim>\<open>migrate-9-11.sql\<close> and, on its result,
  \<^verbatim>\<open>migrate-11-12.sql\<close>, and sets \<open>user_version\<close> to 12, when both scripts succeed.
\<close>

theorem Database_init_migrates_from_9:
  assumes "fs file_name = Some s"
    and "user_version s = 9"
    and "scripts ''migrate-9-11.sql'' s = Inr s1"
    and "scripts ''migrate-11-12.sql'' s1 = Inr s2"
  shows "backup_file file_name 9 =
           fst (splitext file_name) @ ''.backup-schema9'' @ snd (splitext file_name) \<and>
         backup_file file_name 9 \<noteq> file_name \<and>
         Database_init scripts file_name fs =
           (None, fs(backup_file file_name 9 \<mapsto> s, file_name \<mapsto> s2\<lparr>user_version := 12\<rparr>),
            s2\<lparr>user_version := 12\<rparr>)"
proof (intro conjI)
  show "backup_file file_name 9 =
      fst (splitext file_name) @ ''.backup-schema9'' @ snd (splitext file_name)"
    by (rule backup_file_9)
  show "backup_file file_name 9 \<noteq> file_name"
    by (rule backup_file_neq)
  show "Database_init scripts file_name fs =
      (None, fs(backup_file file_name 9 \<mapsto> s, file_name \<mapsto> s2\<lparr>user_version := 12\<rparr>),
       s2\<lparr>user_version := 12\<rparr>)"
    using assms by (rule Database_init_9)
qed

theorem Database_init_migrates_from_9_witness:
  "example_fs 9 ''cache.sqlite'' = Some (example_store\<lparr>user_version := 9\<rparr>) \<and>
   backup_file ''cache.sqlite'' 9 = ''cache.backup-schema9.sqlite'' \<and>
   Database_init example_scripts ''cache.sqlite'' (example_fs 9) =
     (None, Map.empty(''cache.sqlite'' \<mapsto> example_store,
        ''cache.backup-schema9.sqlite'' \<mapsto> example_store\<lparr>user_version := 9\<rparr>),
      example_store)"
proof -
  have name: "backup_file ''cache.sqlite'' 9 = ''cache.backup-schema9.sqlite''"
    by code_simp
  have a: "example_fs 9 ''cache.sqlite'' = Some (example_store\<lparr>user_version := 9\<rparr>)"
    by (simp add: example_fs_def)
  have b: "user_version (example_store\<lparr>user_version := 9\<rparr>) = 9"
    by simp
  have c: "example_scripts ''migrate-9-11.sql'' (example_store\<lparr>user_version := 9\<rparr>) =
      Inr (example_store\<lparr>user_version := 9\<rparr>)"
    and d: "example_scripts ''migrate-11-12.sql'' (example_store\<lparr>user_version := 9\<rparr>) =
      Inr (example_store\<lparr>user_version := 9\<rparr>)"
    by (simp_all add: example_scripts_def)
  have e: "example_store\<lparr>user_version := 12\<rparr> = example_store"
    by (simp add: example_store_def)
  show ?thesis
    using Database_init_migrates_from_9 [of "example_fs 9" "''cache.sqlite''"
        "example_store\<lparr>user_version := 9\<rparr>" example_scripts
        "example_store\<lparr>user_version := 9\<rparr>" "example_store\<lparr>user_version := 9\<rparr>",
        OF a b c d]
    by (auto simp add: name a e example_fs_def fun_upd_twist)
qed

text \<open>
  An open at version 12 runs no statement but the \<^verbatim>\<open>PRAGMA\<close> that reads the version.
\<close>

lemma Database_init_at_12:
  "user_version (connect fs file_name) = 12 \<Longrightarrow>
   Database_init scripts file_name fs = (None, fs, connect fs file_name)"
  by (simp add: Database_init_def Let_def query_user_version schema_version_def pass_def)

lemma Database_init_new:
  assumes "connect fs file_name = empty_db"
    and "scripts ''setup.sql'' = setup_sql"
  shows "Database_init scripts file_name fs =
           (None, fs(file_name \<mapsto> new_store []), new_store [default_view])"
proof -
  have v: "query empty_db pragma_user_version 1 NoParams = Inr (Some [0], empty_db)"
    by (simp add: query_user_version empty_db_def)
  have script: "scripts ''setup.sql'' (empty_db\<lparr>user_version := 12\<rparr>) = Inr (new_store [])"
    using assms(2) by (simp add: setup_sql_def empty_db_def List.union_def new_store_def)
  have view: "add_view (new_store []) (View_init 0 ''default'') = Inr (new_store [default_view])"
    by (simp add: add_view_def run_def query_def execute_def sql_insert_def views_conflict_def
        View_init_def schema_tables_def new_store_def default_view_def)
  show ?thesis
    by (simp add: Database_init_def Let_def v schema_version_def seq_def pass_def
        autocommit_def in_transaction_def assms(1) run_set_user_version
        query_script_file_def script view)
qed

text \<open>
  C8. Opening a fresh store (no file, or the empty database), with \<^verbatim>\<open>setup.sql\<close> as
  the spec describes it, sets \<open>user_version\<close> to 12 and creates the six tables in the
  file, and inserts the view 0 named \<^verbatim>\<open>default\<close>, and no other row, in the store of
  the connection. \<^verbatim>\<open>__init__\<close> does not commit the insert: the file has the view
  after \<^verbatim>\<open>commit\<close>. Opening the file again, before or after the commit, succeeds,
  finds \<open>user_version\<close> 12, runs no script and changes neither the file nor what it
  holds; so does every open of a store at version 12.
\<close>

theorem Database_init_fresh:
  assumes "connect fs file_name = empty_db"
    and "scripts ''setup.sql'' = setup_sql"
  shows "Database_init scripts file_name fs =
           (None, fs(file_name \<mapsto> new_store []), new_store [default_view]) \<and>
         Database_init scripts file_name (fs(file_name \<mapsto> new_store [])) =
           (None, fs(file_name \<mapsto> new_store []), new_store []) \<and>
         commit file_name (fs(file_name \<mapsto> new_store []), new_store [default_view]) =
           (fs(file_name \<mapsto> new_store [default_view]), new_store [default_view]) \<and>
         Database_init scripts file_name (fs(file_name \<mapsto> new_store [default_view])) =
           (None, fs(file_name \<mapsto> new_store [default_view]), new_store [default_view]) \<and>
         (user_version (connect fs2 file_name) = 12 \<longrightarrow>
            Database_init scripts file_name fs2 = (None, fs2, connect fs2 file_name))"
proof (intro conjI impI)
  show "Database_init scripts file_name fs =
      (None, fs(file_name \<mapsto> new_store []), new_store [default_view])"
    using assms by (rule Database_init_new)
  show "Database_init scripts file_name (fs(file_name \<mapsto> new_store [])) =
      (None, fs(file_name \<mapsto> new_store []), new_store [])"
    using Database_init_at_12 [of "fs(file_name \<mapsto> new_store [])" file_name scripts]
    by (simp add: connect_upd new_store_def)
  show "commit file_name (fs(file_name \<mapsto> new_store []), new_store [default_view]) =
      (fs(file_name \<mapsto> new_store [default_view]), new_store [default_view])"
    by (simp add: commit_def)
  show "Database_init scripts file_name (fs(file_name \<mapsto> new_store [default_view])) =
      (None, fs(file_name \<mapsto> new_store [default_view]), new_store [default_view])"
    using Database_init_at_12 [of "fs(file_name \<mapsto> new_store [default_view])" file_name scripts]
    by (simp add: connect_upd new_store_def)
  show "Database_init scripts file_name fs2 = (None, fs2, connect fs2 file_name)"
    if "user_version (connect fs2 file_name) = 12"
    using that by (rule Database_init_at_12)
qed

theorem Database_init_fresh_witness:
  "connect Map.empty ''cache.sqlite'' = empty_db \<and>
   Database_init (\<lambda>name. setup_sql) ''cache.sqlite'' Map.empty =
     (None, Map.empty(''cache.sqlite'' \<mapsto> new_store []), new_store [default_view]) \<and>
   user_version (new_store []) = 12 \<and>
   map v_name (views (new_store [default_view])) = [''default''] \<and>
   Database_init (\<lambda>name. setup_sql) ''cache.sqlite''
       (Map.empty(''cache.sqlite'' \<mapsto> new_store [])) =
     (None, Map.empty(''cache.sqlite'' \<mapsto> new_store []), new_store []) \<and>
   user_version (connect (example_fs 12) ''cache.sqlite'') = 12 \<and>
   Database_init (\<lambda>name. setup_sql) ''cache.sqlite'' (example_fs 12) =
     (None, example_fs 12, connect (example_fs 12) ''cache.sqlite'')"
proof -
  have a: "connect Map.empty ''cache.sqlite'' = empty_db"
    by (simp add: connect_def)
  have b: "user_version (connect (example_fs 12) ''cache.sqlite'') = 12"
    by (simp add: connect_def example_fs_def)
  show ?thesis
    using Database_init_fresh [OF a, of "\<lambda>name. setup_sql" "example_fs 12"] a b
    by (simp add: new_store_def default_view_def)
qed

section \<open>Abbreviations\<close>

lemma File_course_abbrev_auto:
  "File_u_course_abbrev f = None \<Longrightarrow>
   File_course_abbrev abbreviate_course_name f = abbreviate_course_name (File_name f)"
  by (simp add: File_course_abbrev_def)

text \<open>
  C9. With no override, \<^verbatim>\<open>File.course_abbrev\<close> abbreviates the name of the file,
  not the name of the course: for the file \<^verbatim>\<open>sheet01\<close> of the course
  \<^verbatim>\<open>Analysis\<close> and an abbreviation that keeps three characters it yields
  \<^verbatim>\<open>she\<close>, where the course name gives \<^verbatim>\<open>Ana\<close>.
\<close>

theorem File_course_abbrev_of_file_name:
  "File_u_course_abbrev example_file = None \<and>
   File_course_abbrev example_abbreviate example_file = ''she'' \<and>
   example_abbreviate (File_name example_file) = ''she'' \<and>
   example_abbreviate (File_course_name example_file) = ''Ana''"
  by (simp add: File_course_abbrev_def example_abbreviate_def example_file_def)

section \<open>Files\<close>

lemma update_file_local_date_eq:
  "''files'' \<in> set (tables s) \<Longrightarrow>
   update_file_local_date s file =
     Inr (s\<lparr>files := map (\<lambda>r. if f_id r = File_id file
                               then r\<lparr>f_local_date := File_local_date file\<rparr> else r)
                      (files s)\<rparr>)"
  by (simp add: update_file_local_date_def run_query_write sql_update_def)

text \<open>
  C7. On a store with a \<open>files\<close> table, \<^verbatim>\<open>update_file_local_date\<close> returns
  normally; it changes no table but \<open>files\<close>, keeps every checkout and every version,
  and replaces each row of the file's id by the same row with the new \<open>local_date\<close>,
  leaving the other rows as they are.
\<close>

theorem update_file_local_date_frame:
  assumes "''files'' \<in> set (tables s)"
  shows "\<exists>s'. update_file_local_date s file = Inr s' \<and>
           s' = s\<lparr>files := files s'\<rparr> \<and>
           checkouts s' = checkouts s \<and>
           map f_version (files s') = map f_version (files s) \<and>
           length (files s') = length (files s) \<and>
           (\<forall>i < length (files s).
              files s' ! i =
                (if f_id (files s ! i) = File_id file
                 then (files s ! i)\<lparr>f_local_date := File_local_date file\<rparr>
                 else files s ! i))"
  using assms by (simp add: update_file_local_date_eq comp_def cong: map_cong)

theorem update_file_local_date_frame_witness:
  "''files'' \<in> set (tables example_store) \<and>
   (\<exists>s'. update_file_local_date example_store example_file = Inr s' \<and>
      checkouts s' = [\<lparr>co_view = 0, co_file = ''f1''\<rparr>] \<and>
      map f_version (files s') = [0] \<and>
      map f_local_date (files s') = [Some 150] \<and>
      map f_name (files s') = [''sheet01''])"
proof -
  have a: "''files'' \<in> set (tables example_store)"
    by (simp add: example_tables)
  obtain s' where s': "update_file_local_date example_store example_file = Inr s'"
      "checkouts s' = checkouts example_store"
      "map f_version (files s') = map f_version (files example_store)"
      "length (files s') = length (files example_store)"
      "\<forall>i < length (files example_store).
         files s' ! i =
           (if f_id (files example_store ! i) = File_id example_file
            then (files example_store ! i)\<lparr>f_local_date := File_local_date example_file\<rparr>
            else files example_store ! i)"
    using update_file_local_date_frame [OF a, of example_file] by blast
  from s'(4) obtain r where r: "files s' = [r]"
    by (cases "files s'") (auto simp add: example_store_def)
  from s'(5) r have "r = (files example_store ! 0)\<lparr>f_local_date := Some 150\<rparr>"
    by (simp add: example_store_def example_file_def)
  with r s'(1,2,3) a show ?thesis
    by (simp add: example_store_def)
qed

section \<open>Folder resolution\<close>

lemma next_rowid_fresh: "next_rowid ids \<notin> set ids"
proof
  assume a: "next_rowid ids \<in> set ids"
  then have ne: "ids \<noteq> []" by auto
  with a have "Max (set ids) + 1 \<in> set ids"
    by (simp add: next_rowid_def)
  then have "Max (set ids) + 1 \<le> Max (set ids)"
    by (intro Max_ge) auto
  then show False by simp
qed

lemma query_subdirectory_eq:
  "''folders'' \<in> set (tables s) \<Longrightarrow>
   query_subdirectory s par name =
     Inr (Some (map fo_id (filter (in_folder par name) (folders s))), s)"
  by (simp add: query_subdirectory_def query_read execute_def sql_select_def)

lemma query_subdirectory_no_table:
  "''folders'' \<notin> set (tables s) \<Longrightarrow> query_subdirectory s par name = Inl OperationalError"
  by (simp add: query_subdirectory_def query_read execute_def sql_select_def)

lemma insert_folder_ok:
  assumes "''folders'' \<in> set (tables s)"
    and "filter (in_folder par name) (folders s) = []"
  shows "query s (insert_folder_sql name par) 0 Keyword =
           Inr (None, s\<lparr>folders := folders s @ [new_folder s name par]\<rparr>)"
proof -
  have fresh: "next_rowid (map fo_id (folders s)) \<notin> set (map fo_id (folders s))"
    by (rule next_rowid_fresh)
  have none: "\<forall>r \<in> set (folders s). \<not> in_folder par name r"
    using assms(2) by (simp add: filter_empty_conv)
  have "\<not> folders_conflict (folders s) (new_folder s name par)"
    using fresh none
    by (auto simp add: folders_conflict_def new_folder_def in_folder_def)
  with assms(1) show ?thesis
    by (simp add: query_def execute_def insert_folder_sql_def sql_insert_def)
qed

lemma walk_path_step:
  assumes "''folders'' \<in> set (tables s)"
  shows "walk_path s par (name # path) =
     (case filter (in_folder par name) (folders s) of
        r # _ \<Rightarrow> walk_path s (Some (fo_id r)) path
      | [] \<Rightarrow>
          if par = None then Inl IndexError
          else walk_path (s\<lparr>folders := folders s @ [new_folder s name par]\<rparr>)
                 (Some (fo_id (new_folder s name par))) path)"
proof (cases "filter (in_folder par name) (folders s)")
  case Nil
  have t: "''folders'' \<in> set (tables (s\<lparr>folders := folders s @ [new_folder s name par]\<rparr>))"
    using assms by simp
  show ?thesis
  proof (cases par)
    case None
    then show ?thesis
      using Nil assms
      by (simp add: query_subdirectory_eq insert_folder_ok query_subdirectory_eq [OF t]
          in_folder_def)
  next
    case (Some p)
    then have "in_folder par name (new_folder s name par)"
      by (simp add: in_folder_def new_folder_def)
    then show ?thesis
      using Nil assms Some
      by (simp add: query_subdirectory_eq insert_folder_ok query_subdirectory_eq [OF t])
  qed
next
  case (Cons r rs)
  then show ?thesis
    using assms by (simp add: query_subdirectory_eq)
qed

lemma walk_path_no_table:
  "''folders'' \<notin> set (tables s) \<Longrightarrow> walk_path s par (name # path) = Inl OperationalError"
  by (simp add: query_subdirectory_no_table)

declare walk_path.simps(2) [simp del]

lemma walk_path_appends:
  "walk_path s par path = Inr (r, s') \<Longrightarrow> \<exists>extra. s' = s\<lparr>folders := folders s @ extra\<rparr>"
proof (induction path arbitrary: s par)
  case Nil
  then show ?case by (auto intro: exI [of _ "[]"])
next
  case (Cons name path)
  show ?case
  proof (cases "''folders'' \<in> set (tables s)")
    case False
    with Cons.prems show ?thesis by (simp add: walk_path_no_table)
  next
    case True
    show ?thesis
    proof (cases "filter (in_folder par name) (folders s)")
      case (Cons x xs)
      with Cons.prems True have "walk_path s (Some (fo_id x)) path = Inr (r, s')"
        by (simp add: walk_path_step)
      then show ?thesis by (rule Cons.IH)
    next
      case Nil
      let ?s1 = "s\<lparr>folders := folders s @ [new_folder s name par]\<rparr>"
      from Nil Cons.prems True have "walk_path ?s1 (Some (fo_id (new_folder s name par))) path = Inr (r, s')"
        by (simp add: walk_path_step split: if_splits)
      then obtain extra where "s' = ?s1\<lparr>folders := folders ?s1 @ extra\<rparr>"
        using Cons.IH by blast
      then have "s' = s\<lparr>folders := folders s @ (new_folder s name par # extra)\<rparr>"
        by simp
      then show ?thesis by blast
    qed
  qed
qed

lemma walk_path_idem:
  "walk_path s par path = Inr (r, s') \<Longrightarrow> walk_path s' par path = Inr (r, s')"
proof (induction path arbitrary: s par)
  case Nil
  then show ?case by simp
next
  case (Cons name path)
  show ?case
  proof (cases "''folders'' \<in> set (tables s)")
    case False
    with Cons.prems show ?thesis by (simp add: walk_path_no_table)
  next
    case True
    show ?thesis
    proof (cases "filter (in_folder par name) (folders s)")
      case (Cons x xs)
      with Cons.prems True have w: "walk_path s (Some (fo_id x)) path = Inr (r, s')"
        by (simp add: walk_path_step)
      then obtain extra where e: "s' = s\<lparr>folders := folders s @ extra\<rparr>"
        using walk_path_appends by blast
      with Cons have f: "filter (in_folder par name) (folders s') = x # xs @ filter (in_folder par name) extra"
        by simp
      from e True have t: "''folders'' \<in> set (tables s')" by simp
      from Cons.IH [OF w] f t show ?thesis
        by (simp add: walk_path_step)
    next
      case Nil
      let ?n = "new_folder s name par"
      let ?s1 = "s\<lparr>folders := folders s @ [?n]\<rparr>"
      from Nil Cons.prems True have p: "par \<noteq> None"
        and w: "walk_path ?s1 (Some (fo_id ?n)) path = Inr (r, s')"
        by (simp_all add: walk_path_step split: if_splits)
      then obtain extra where e: "s' = ?s1\<lparr>folders := folders ?s1 @ extra\<rparr>"
        using walk_path_appends by blast
      from p have "in_folder par name ?n"
        by (auto simp add: in_folder_def new_folder_def)
      with e Nil have f: "filter (in_folder par name) (folders s') = ?n # filter (in_folder par name) extra"
        by simp
      from e True have t: "''folders'' \<in> set (tables s')" by simp
      from Cons.IH [OF w] f t show ?thesis
        by (simp add: walk_path_step)
    qed
  qed
qed

lemma walk_path_stable:
  "walk_path s par path = Inr (r, s') \<Longrightarrow>
   walk_path (s'\<lparr>folders := folders s' @ added\<rparr>) par path =
     Inr (r, s'\<lparr>folders := folders s' @ added\<rparr>)"
proof (induction path arbitrary: s par)
  case Nil
  then show ?case by simp
next
  case (Cons name path)
  let ?s2 = "s'\<lparr>folders := folders s' @ added\<rparr>"
  show ?case
  proof (cases "''folders'' \<in> set (tables s)")
    case False
    with Cons.prems show ?thesis by (simp add: walk_path_no_table)
  next
    case True
    show ?thesis
    proof (cases "filter (in_folder par name) (folders s)")
      case (Cons x xs)
      with Cons.prems True have w: "walk_path s (Some (fo_id x)) path = Inr (r, s')"
        by (simp add: walk_path_step)
      then obtain extra where e: "s' = s\<lparr>folders := folders s @ extra\<rparr>"
        using walk_path_appends by blast
      with Cons have f: "filter (in_folder par name) (folders ?s2) =
          x # xs @ filter (in_folder par name) extra @ filter (in_folder par name) added"
        by simp
      from e True have t: "''folders'' \<in> set (tables ?s2)" by simp
      from Cons.IH [OF w] f t show ?thesis
        by (simp add: walk_path_step)
    next
      case Nil
      let ?n = "new_folder s name par"
      let ?s1 = "s\<lparr>folders := folders s @ [?n]\<rparr>"
      from Nil Cons.prems True have p: "par \<noteq> None"
        and w: "walk_path ?s1 (Some (fo_id ?n)) path = Inr (r, s')"
        by (simp_all add: walk_path_step split: if_splits)
      then obtain extra where e: "s' = ?s1\<lparr>folders := folders ?s1 @ extra\<rparr>"
        using walk_path_appends by blast
      from p have "in_folder par name ?n"
        by (auto simp add: in_folder_def new_folder_def)
      with e Nil have f: "filter (in_folder par name) (folders ?s2) =
          ?n # filter (in_folder par name) extra @ filter (in_folder par name) added"
        by simp
      from e True have t: "''folders'' \<in> set (tables ?s2)" by simp
      from Cons.IH [OF w] f t show ?thesis
        by (simp add: walk_path_step)
    qed
  qed
qed


lemma walk_path_total:
  "''folders'' \<in> set (tables s) \<Longrightarrow> \<exists>r s'. walk_path s (Some p) path = Inr (r, s')"
proof (induction path arbitrary: s p)
  case Nil
  then show ?case by simp
next
  case (Cons name path)
  show ?case
  proof (cases "filter (in_folder (Some p) name) (folders s)")
    case (Cons x xs)
    with Cons.IH [OF Cons.prems, of "fo_id x"] Cons.prems show ?thesis
      by (simp add: walk_path_step)
  next
    case Nil
    let ?s1 = "s\<lparr>folders := folders s @ [new_folder s name (Some p)]\<rparr>"
    from Cons.prems have "''folders'' \<in> set (tables ?s1)" by simp
    from Cons.IH [OF this, of "fo_id (new_folder s name (Some p))"] Nil Cons.prems show ?thesis
      by (simp add: walk_path_step)
  qed
qed

lemma create_parent_for_file_eq:
  "''courses'' \<in> set (tables s) \<Longrightarrow>
   create_parent_for_file s file =
     (case filter (\<lambda>c. c_id c = File_course file) (courses s) of
        [] \<Rightarrow> Inl IndexError
      | c # _ \<Rightarrow> walk_path s (c_root c) (File_path file))"
  by (simp add: create_parent_for_file_def query_read execute_def sql_select_def
      split: list.splits)

lemma create_parent_for_file_no_table:
  "''courses'' \<notin> set (tables s) \<Longrightarrow> create_parent_for_file s file = Inl OperationalError"
  by (simp add: create_parent_for_file_def query_read execute_def sql_select_def)

lemma create_parent_for_file_appends:
  assumes "create_parent_for_file s file = Inr (folder, s')"
  shows "\<exists>extra. s' = s\<lparr>folders := folders s @ extra\<rparr>"
proof (cases "''courses'' \<in> set (tables s)")
  case False
  with assms show ?thesis by (simp add: create_parent_for_file_no_table)
next
  case True
  show ?thesis
  proof (cases "filter (\<lambda>c. c_id c = File_course file) (courses s)")
    case Nil
    with assms True show ?thesis by (simp add: create_parent_for_file_eq)
  next
    case (Cons c cs)
    with assms True have "walk_path s (c_root c) (File_path file) = Inr (folder, s')"
      by (simp add: create_parent_for_file_eq)
    then show ?thesis by (rule walk_path_appends)
  qed
qed

lemma example_create_parent:
  "create_parent_for_file example_store example_file =
     Inr (Some 4, example_store\<lparr>folders := folders example_store @
        [\<lparr>fo_id = 3, fo_name = ''Sheets'', fo_parent = Some 1\<rparr>,
         \<lparr>fo_id = 4, fo_name = ''Week 1'', fo_parent = Some 3\<rparr>]\<rparr>)"
  by (simp add: create_parent_for_file_eq walk_path_step example_store_def example_file_def
      schema_tables_def in_folder_def new_folder_def next_rowid_def)


text \<open>
  C3. When \<^verbatim>\<open>create_parent_for_file\<close> returns a folder and leaves the store
  \<open>s'\<close>, a second call with the same file (the same course and path) on \<open>s'\<close>
  returns the same folder and leaves \<open>s'\<close> as it is: it inserts no folder row. The
  first call only appends rows to \<open>folders\<close>. The same holds for the second call on
  any store that \<open>s'\<close> becomes when further folder rows are added.
\<close>

theorem create_parent_for_file_idempotent:
  assumes "create_parent_for_file s file = Inr (folder, s')"
  shows "create_parent_for_file s' file = Inr (folder, s') \<and>
         (\<exists>extra. folders s' = folders s @ extra) \<and>
         create_parent_for_file (s'\<lparr>folders := folders s' @ added\<rparr>) file =
           Inr (folder, s'\<lparr>folders := folders s' @ added\<rparr>)"
proof (cases "''courses'' \<in> set (tables s)")
  case False
  with assms show ?thesis by (simp add: create_parent_for_file_no_table)
next
  case True
  obtain extra where e: "s' = s\<lparr>folders := folders s @ extra\<rparr>"
    using create_parent_for_file_appends [OF assms] by blast
  from assms True obtain c cs where f: "filter (\<lambda>c. c_id c = File_course file) (courses s) = c # cs"
    and w: "walk_path s (c_root c) (File_path file) = Inr (folder, s')"
    by (auto simp add: create_parent_for_file_eq split: list.splits)
  have later: "create_parent_for_file (s'\<lparr>folders := folders s' @ rows\<rparr>) file =
      Inr (folder, s'\<lparr>folders := folders s' @ rows\<rparr>)" for rows
  proof -
    from e True have t: "''courses'' \<in> set (tables (s'\<lparr>folders := folders s' @ rows\<rparr>))"
      by simp
    from e f have f': "filter (\<lambda>c. c_id c = File_course file) (courses s') = c # cs"
      by simp
    show ?thesis
      using walk_path_stable [OF w, of rows] by (simp add: create_parent_for_file_eq [OF t] f')
  qed
  from later [of "[]"] have "create_parent_for_file s' file = Inr (folder, s')"
    by simp
  moreover from e have "\<exists>extra. folders s' = folders s @ extra" by simp
  ultimately show ?thesis using later [of added] by blast
qed

theorem create_parent_for_file_idempotent_witness:
  "create_parent_for_file example_store example_file =
     Inr (Some 4, example_store\<lparr>folders := folders example_store @
        [\<lparr>fo_id = 3, fo_name = ''Sheets'', fo_parent = Some 1\<rparr>,
         \<lparr>fo_id = 4, fo_name = ''Week 1'', fo_parent = Some 3\<rparr>]\<rparr>) \<and>
   create_parent_for_file (example_store\<lparr>folders := folders example_store @
        [\<lparr>fo_id = 3, fo_name = ''Sheets'', fo_parent = Some 1\<rparr>,
         \<lparr>fo_id = 4, fo_name = ''Week 1'', fo_parent = Some 3\<rparr>]\<rparr>) example_file =
     Inr (Some 4, example_store\<lparr>folders := folders example_store @
        [\<lparr>fo_id = 3, fo_name = ''Sheets'', fo_parent = Some 1\<rparr>,
         \<lparr>fo_id = 4, fo_name = ''Week 1'', fo_parent = Some 3\<rparr>]\<rparr>)"
  using create_parent_for_file_idempotent [OF example_create_parent, of "[]"]
    example_create_parent
  by simp


section \<open>Updating a file\<close>

lemma create_parent_for_file_total:
  assumes "''courses'' \<in> set (tables s)" and "''folders'' \<in> set (tables s)"
    and "filter (\<lambda>c. c_id c = File_course file) (courses s) = c # cs"
    and "c_root c = Some root"
  shows "\<exists>folder s'. create_parent_for_file s file = Inr (folder, s')"
  using assms walk_path_total [OF assms(2), of root "File_path file"]
  by (simp add: create_parent_for_file_eq)




lemma update_file_eq:
  assumes "create_parent_for_file s file = Inr (parent, s1)"
  shows "update_file s file =
     (if ''files'' \<notin> set (tables s) \<or> ''checkouts'' \<notin> set (tables s) then Inl OperationalError
      else Inr (s1\<lparr>files :=
                     (case file_columns file parent of
                        None \<Rightarrow> files s
                      | Some cols \<Rightarrow>
                          map (\<lambda>r. if f_id r = File_id file then set_file_columns file cols r
                                   else r) (files s)),
                   checkouts := filter (\<lambda>r. co_file r \<noteq> File_id file) (checkouts s)\<rparr>))"
proof -
  obtain extra where e: "s1 = s\<lparr>folders := folders s @ extra\<rparr>"
    using create_parent_for_file_appends [OF assms] by blast
  have same: "s\<lparr>folders := folders s @ extra, files := files s\<rparr> = s\<lparr>folders := folders s @ extra\<rparr>"
    by simp
  show ?thesis
    by (simp add: update_file_def assms run_def query_def execute_def update_file_sql_def
        sql_update_def sql_delete_def e same split: option.splits)
qed








section \<open>Listing courses\<close>
















section \<open>Operations on an id that has no row\<close>

lemma update_course_eq:
  "''courses'' \<in> set (tables s) \<Longrightarrow>
   update_course an at s course =
     Inr (s\<lparr>courses :=
        map (\<lambda>r. if c_id r = Course_id course
                 then r\<lparr>c_number := Course_number course, c_name := Course_name course,
                        c_abbrev := Some (Course_abbrev an course),
                        c_type := Course_type course,
                        c_type_abbrev := Some (Course_type_abbrev at course),
                        c_sync := Course_sync course\<rparr>
                 else r) (courses s)\<rparr>)"
  by (simp add: update_course_def run_query_write sql_update_def)

lemma update_course_missing:
  assumes "''courses'' \<in> set (tables s)"
    and "Course_id course \<notin> set (map c_id (courses s))"
  shows "update_course an at s course = Inr s"
proof -
  have "map (\<lambda>r. if c_id r = Course_id course
                 then r\<lparr>c_number := Course_number course, c_name := Course_name course,
                        c_abbrev := Some (Course_abbrev an course),
                        c_type := Course_type course,
                        c_type_abbrev := Some (Course_type_abbrev at course),
                        c_sync := Course_sync course\<rparr>
                 else r) (courses s) = courses s"
    using assms(2) by (intro map_idI) force
  with assms(1) show ?thesis
    by (simp add: update_course_eq)
qed

lemma delete_course_missing:
  assumes "''courses'' \<in> set (tables s)"
    and "Course_id course \<notin> set (map c_id (courses s))"
  shows "delete_course s course = Inr s"
proof -
  have "filter (\<lambda>r. c_id r \<noteq> Course_id course) (courses s) = courses s"
    using assms(2) by (intro filter_True) force
  with assms(1) show ?thesis
    by (simp add: delete_course_def run_query_write sql_delete_def)
qed

lemma remove_view_missing:
  assumes "''views'' \<in> set (tables s)"
    and "vid \<notin> set (map v_id (views s))"
  shows "remove_view s vid = Inr s"
proof -
  have "filter (\<lambda>r. v_id r \<noteq> vid) (views s) = views s"
    using assms(2) by (intro filter_True) force
  with assms(1) show ?thesis
    by (simp add: remove_view_def run_query_write sql_delete_def)
qed

lemma update_file_missing:
  assumes "update_file s file = Inr s'"
    and "File_id file \<notin> set (map f_id (files s))"
  shows "files s' = files s"
proof -
  from assms(1) obtain parent s1 where c: "create_parent_for_file s file = Inr (parent, s1)"
    by (auto simp add: update_file_def split: sum.splits)
  obtain extra where e: "s1 = s\<lparr>folders := folders s @ extra\<rparr>"
    using create_parent_for_file_appends [OF c] by blast
  have "map (\<lambda>r. if f_id r = File_id file then set_file_columns file cols r else r) (files s) =
      files s" for cols
    using assms(2) by (intro map_idI) force
  with assms(1) show ?thesis
    by (auto simp add: update_file_eq [OF c] e split: if_splits option.splits)
qed


text \<open>
  C2, as stated, fails for the updates: \<^verbatim>\<open>update_course\<close> with an id that has no
  row returns normally and leaves the store as it is.
\<close>

theorem update_missing_id_counterexample:
  "Course_id example_course \<notin> set (map c_id (courses example_store)) \<and>
   update_course example_abbreviate example_abbreviate example_store example_course =
     Inr example_store"
proof -
  have a: "Course_id example_course \<notin> set (map c_id (courses example_store))"
    by (simp add: example_store_def example_course_def)
  have b: "''courses'' \<in> set (tables example_store)"
    by (simp add: example_tables)
  show ?thesis
    using a update_course_missing [OF b a] by simp
qed


text \<open>
  C2, amended. No operation checks the number of affected rows. With an id that has no
  row, \<^verbatim>\<open>update_course\<close>, \<^verbatim>\<open>delete_course\<close> and \<^verbatim>\<open>remove_view\<close> return normally
  and leave the store unchanged; \<^verbatim>\<open>update_file\<close>, whenever it returns, leaves the
  \<open>files\<close> table unchanged, and it does return when the first course row of the
  file's course has a root folder.
\<close>

theorem missing_id_is_no_op:
  assumes "set [''courses'', ''folders'', ''files'', ''checkouts'', ''views''] \<subseteq> set (tables s)"
  shows "(Course_id course \<notin> set (map c_id (courses s)) \<longrightarrow>
            update_course an at s course = Inr s \<and> delete_course s course = Inr s) \<and>
         (vid \<notin> set (map v_id (views s)) \<longrightarrow> remove_view s vid = Inr s) \<and>
         (File_id f \<notin> set (map f_id (files s)) \<longrightarrow>
            (update_file s f = Inr s' \<longrightarrow> files s' = files s) \<and>
            (filter (\<lambda>c. c_id c = File_course f) (courses s) = c # cs \<and> c_root c = Some root \<longrightarrow>
               (\<exists>s1. update_file s f = Inr s1 \<and> files s1 = files s)))"
proof (intro conjI impI)
  assume m: "Course_id course \<notin> set (map c_id (courses s))"
  show "update_course an at s course = Inr s"
    using assms m by (simp add: update_course_missing)
  show "delete_course s course = Inr s"
    using assms m by (simp add: delete_course_missing)
next
  assume "vid \<notin> set (map v_id (views s))"
  then show "remove_view s vid = Inr s"
    using assms by (simp add: remove_view_missing)
next
  assume "File_id f \<notin> set (map f_id (files s))" and "update_file s f = Inr s'"
  then show "files s' = files s"
    using update_file_missing by blast
next
  assume m: "File_id f \<notin> set (map f_id (files s))"
    and r: "filter (\<lambda>c. c_id c = File_course f) (courses s) = c # cs \<and> c_root c = Some root"
  then obtain parent s1 where p: "create_parent_for_file s f = Inr (parent, s1)"
    using create_parent_for_file_total [of s f c cs root] assms by auto
  from assms obtain s2 where u: "update_file s f = Inr s2"
    by (simp add: update_file_eq [OF p])
  with m show "\<exists>s1. update_file s f = Inr s1 \<and> files s1 = files s"
    using update_file_missing by blast
qed

theorem missing_id_is_no_op_witness:
  "Course_id example_course \<notin> set (map c_id (courses example_store)) \<and>
   update_course example_abbreviate example_abbreviate example_store example_course =
     Inr example_store \<and>
   delete_course example_store example_course = Inr example_store \<and>
   remove_view example_store 7 = Inr example_store \<and>
   (\<exists>s1. update_file example_store (example_file\<lparr>File_id := ''f9''\<rparr>) = Inr s1 \<and>
      files s1 = files example_store)"
proof -
  have t: "set [''courses'', ''folders'', ''files'', ''checkouts'', ''views'']
      \<subseteq> set (tables example_store)"
    by (simp add: example_tables)
  have a: "Course_id example_course \<notin> set (map c_id (courses example_store))"
    and b: "7 \<notin> set (map v_id (views example_store))"
    and c: "File_id (example_file\<lparr>File_id := ''f9''\<rparr>) \<notin> set (map f_id (files example_store))"
    and d: "filter (\<lambda>c. c_id c = File_course (example_file\<lparr>File_id := ''f9''\<rparr>))
        (courses example_store) = hd (courses example_store) # []"
    and e: "c_root (hd (courses example_store)) = Some 1"
    by (simp_all add: example_store_def example_course_def example_file_def)
  show ?thesis
    using missing_id_is_no_op [OF t, of example_course example_abbreviate example_abbreviate
        7 "example_file\<lparr>File_id := ''f9''\<rparr>" _ "hd (courses example_store)" "[]" 1]
      a b c d e
    by blast
qed

section \<open>Integrity errors\<close>

lemma add_course_present:
  assumes "set [''courses'', ''semesters''] \<subseteq> set (tables s)"
    and "Course_id course \<in> set (map c_id (courses s))"
  shows "add_course s course = Inr s"
  using assms
  by (simp add: add_course_def run_query_write add_course_sql_def sql_insert_def
      courses_conflict_def split: list.splits)

lemma add_view_present:
  assumes "''views'' \<in> set (tables s)"
    and "View_name view \<in> set (map v_name (views s))"
  shows "add_view s view = Inr s"
  using assms
  by (simp add: add_view_def run_query_write sql_insert_def views_conflict_def)

lemma add_checkout_eq:
  "''checkouts'' \<in> set (tables s) \<Longrightarrow>
   add_checkout s v f =
     (if \<lparr>co_view = v, co_file = f\<rparr> \<in> set (checkouts s) then Inr s
      else Inr (s\<lparr>checkouts := checkouts s @ [\<lparr>co_view = v, co_file = f\<rparr>]\<rparr>))"
  by (simp add: add_checkout_def run_query_write sql_insert_def checkouts_conflict_def)

lemma add_checkout_twice:
  assumes "''checkouts'' \<in> set (tables s)"
  shows "\<exists>s1. add_checkout s v f = Inr s1 \<and> add_checkout s1 v f = Inr s1"
  using assms by (simp add: add_checkout_eq)

lemma query_swallows:
  "sql s = Inl IntegrityError \<Longrightarrow> query s sql 0 Keyword = Inr (None, s)"
  by (simp add: query_def execute_def)


text \<open>
  C10. A statement run with keyword arguments that raises \<^verbatim>\<open>IntegrityError\<close> makes
  \<open>query\<close> return normally with the store unchanged. So \<^verbatim>\<open>add_course\<close> with a
  course id already present and \<^verbatim>\<open>add_view\<close> with a view name already present
  return normally and change nothing, and a second \<^verbatim>\<open>add_checkout\<close> of the same
  view and file returns normally and leaves the store of the first call.
\<close>

theorem integrity_errors_swallowed:
  assumes "set [''courses'', ''semesters'', ''views'', ''checkouts''] \<subseteq> set (tables s)"
  shows "(sql s = Inl IntegrityError \<longrightarrow> query s sql 0 Keyword = Inr (None, s)) \<and>
         (Course_id course \<in> set (map c_id (courses s)) \<longrightarrow> add_course s course = Inr s) \<and>
         (View_name view \<in> set (map v_name (views s)) \<longrightarrow> add_view s view = Inr s) \<and>
         (\<exists>s1. add_checkout s view_id file_id = Inr s1 \<and>
            add_checkout s1 view_id file_id = Inr s1)"
  using assms
  by (simp add: query_swallows add_course_present add_view_present add_checkout_twice)

theorem integrity_errors_swallowed_witness:
  "add_course example_store (example_course\<lparr>Course_id := ''c1''\<rparr>) = Inr example_store \<and>
   add_view example_store (View_init 1 ''default'') = Inr example_store \<and>
   add_checkout example_store 0 ''f1'' = Inr example_store \<and>
   add_checkout example_store 1 ''f1'' =
     Inr (example_store\<lparr>checkouts := checkouts example_store @ [\<lparr>co_view = 1, co_file = ''f1''\<rparr>]\<rparr>) \<and>
   add_checkout
     (example_store\<lparr>checkouts := checkouts example_store @ [\<lparr>co_view = 1, co_file = ''f1''\<rparr>]\<rparr>)
     1 ''f1'' =
     Inr (example_store\<lparr>checkouts := checkouts example_store @ [\<lparr>co_view = 1, co_file = ''f1''\<rparr>]\<rparr>)"
proof -
  have t: "set [''courses'', ''semesters'', ''views'', ''checkouts''] \<subseteq> set (tables example_store)"
    by (simp add: example_tables)
  have a: "Course_id (example_course\<lparr>Course_id := ''c1''\<rparr>) \<in> set (map c_id (courses example_store))"
    and b: "View_name (View_init 1 ''default'') \<in> set (map v_name (views example_store))"
    by (simp_all add: example_store_def View_init_def)
  have c: "add_checkout example_store 0 ''f1'' = Inr example_store"
    and d: "add_checkout example_store 1 ''f1'' =
      Inr (example_store\<lparr>checkouts := checkouts example_store @ [\<lparr>co_view = 1, co_file = ''f1''\<rparr>]\<rparr>)"
    by (simp_all add: add_checkout_eq example_tables) (simp_all add: example_store_def)
  from integrity_errors_swallowed [OF t, of _ "example_course\<lparr>Course_id := ''c1''\<rparr>"
      "View_init 1 ''default''" 1 "''f1''"] a b c d
  show ?thesis by auto
qed

end
